theory Spec2Isabelle
  imports Complex_Main
begin

section \<open>Title cleaning service: a model of \<^verbatim>\<open>app.py\<close>\<close>

text \<open>
  The service cleans noisy product titles. It asks a generative model first
  (\<^verbatim>\<open>clean_title_with_ai\<close>, memoised by \<^verbatim>\<open>cached_clean_title\<close>) and falls back to a
  chain of regular expressions (\<^verbatim>\<open>clean_title_with_regex\<close>). This theory embeds the three
  layers and the two HTTP handlers built on them.

  Conventions of the embedding.
  \<^item> A Python \<^verbatim>\<open>str\<close> is a list of Unicode code points (\<open>nat\<close>): the \<^verbatim>\<open>re\<close> module and
    \<^verbatim>\<open>str.strip\<close> work on code points, and the patterns of the source name code points
    beyond one byte.
  \<^item> A Python \<^verbatim>\<open>float\<close> (clock readings, the caller's timeout, confidences) is a \<open>real\<close>.
  \<^item> An exception is a value of \<open>py_exn\<close>; a \<^verbatim>\<open>try\<close> block is a case distinction on a sum.
  \<^item> The process-wide state (the cache of \<^verbatim>\<open>lru_cache\<close> and the calls made to the provider)
    is passed in and returned.
\<close>

subsection \<open>Strings and character classes\<close>

type_synonym ustring = "nat list"

definition ustr :: "string \<Rightarrow> ustring" where
  "ustr s = map of_char s"

text \<open>
  The tables of the Unicode database that \<^verbatim>\<open>\d\<close> (decimal digits) and \<^verbatim>\<open>\w\<close>
  (alphanumerics, used by \<^verbatim>\<open>\b\<close>) consult are part of the Python runtime, not of the
  program. They are a parameter, consulted for code points from 128 on only; below 128 the
  classes are written out.
\<close>

record unicode_tables =
  decimal_tab :: "nat \<Rightarrow> bool"
  alnum_tab :: "nat \<Rightarrow> bool"

text \<open>
  \<^verbatim>\<open>\s\<close> and \<^verbatim>\<open>str.strip()\<close> use the same whitespace test; its code points are few and are
  listed in full.
\<close>

definition is_space :: "nat \<Rightarrow> bool" where
  "is_space c =
     ((9 \<le> c \<and> c \<le> 13) \<or> (28 \<le> c \<and> c \<le> 32) \<or> c = 133 \<or> c = 160 \<or> c = 5760 \<or>
      (8192 \<le> c \<and> c \<le> 8202) \<or> c = 8232 \<or> c = 8233 \<or> c = 8239 \<or> c = 8287 \<or> c = 12288)"

definition ascii_digit :: "nat \<Rightarrow> bool" where
  "ascii_digit c = (48 \<le> c \<and> c \<le> 57)"

definition ascii_alpha :: "nat \<Rightarrow> bool" where
  "ascii_alpha c = ((65 \<le> c \<and> c \<le> 90) \<or> (97 \<le> c \<and> c \<le> 122))"

definition is_digit :: "unicode_tables \<Rightarrow> nat \<Rightarrow> bool" where
  "is_digit U c = (if c < 128 then ascii_digit c else decimal_tab U c)"

definition is_word :: "unicode_tables \<Rightarrow> nat \<Rightarrow> bool" where
  "is_word U c = (if c < 128 then ascii_alpha c \<or> ascii_digit c \<or> c = 95 else alnum_tab U c)"

text \<open>
  Every pattern is compiled with \<^verbatim>\<open>re.IGNORECASE\<close>. For a pattern letter of ASCII the flag
  admits the letter in both cases and, as the documentation of \<^verbatim>\<open>re\<close> lists, four more
  code points: U+0130 and U+0131 for i, U+017F for s, U+212A for k.
\<close>

definition lower_ascii :: "nat \<Rightarrow> nat" where
  "lower_ascii c = (if 65 \<le> c \<and> c \<le> 90 then c + 32 else c)"

definition ci_eq :: "nat \<Rightarrow> nat \<Rightarrow> bool" where
  "ci_eq p c =
     (lower_ascii c = lower_ascii p \<or>
      (lower_ascii p = 105 \<and> (c = 304 \<or> c = 305)) \<or>
      (lower_ascii p = 115 \<and> c = 383) \<or>
      (lower_ascii p = 107 \<and> c = 8490))"

definition alpha_ci :: "nat \<Rightarrow> bool" where
  "alpha_ci c = (ascii_alpha c \<or> c = 304 \<or> c = 305 \<or> c = 383 \<or> c = 8490)"

definition strip :: "ustring \<Rightarrow> ustring" where
  "strip s = rev (dropWhile is_space (rev (dropWhile is_space s)))"

subsection \<open>The fragment of \<^verbatim>\<open>re\<close> that the source uses\<close>

text \<open>
  Every \<^verbatim>\<open>*\<close>, \<^verbatim>\<open>+\<close> and \<^verbatim>\<open>+?\<close> of the source stands on a single character or character
  class, so repetition is a constructor on classes: \<open>Rep greedy least cls\<close>. \<open>Opt\<close> is the
  greedy \<^verbatim>\<open>?\<close> on any subpattern, \<open>Grp n\<close> the n-th capturing group, \<open>Bnd\<close> is \<^verbatim>\<open>\b\<close> and
  \<open>Eos\<close> is \<^verbatim>\<open>$\<close>.
\<close>

datatype rx =
    Cls "nat \<Rightarrow> bool"
  | Rep bool nat "nat \<Rightarrow> bool"
  | Seq rx rx
  | Alt rx rx
  | Opt rx
  | Grp nat rx
  | Bnd "nat \<Rightarrow> bool"
  | Eos
  | Eps

text \<open>
  A matcher state: the code point before the current position (for \<^verbatim>\<open>\b\<close>), the input
  that is left, and the groups captured so far, the latest first.
\<close>

datatype mstate = MState "nat option" ustring "(nat \<times> ustring) list"

text \<open>
  The states after \<open>least\<close>, \<open>least + 1\<close>, ... code points of the class, shortest first.
\<close>

fun rep_cands ::
  "(nat \<Rightarrow> bool) \<Rightarrow> nat \<Rightarrow> nat option \<Rightarrow> ustring \<Rightarrow> (nat \<times> ustring) list \<Rightarrow> mstate list" where
  "rep_cands P 0 pv [] cs = [MState pv [] cs]"
| "rep_cands P 0 pv (c # r) cs =
     MState pv (c # r) cs # (if P c then rep_cands P 0 (Some c) r cs else [])"
| "rep_cands P (Suc n) pv [] cs = []"
| "rep_cands P (Suc n) pv (c # r) cs = (if P c then rep_cands P n (Some c) r cs else [])"

definition at_boundary :: "(nat \<Rightarrow> bool) \<Rightarrow> nat option \<Rightarrow> ustring \<Rightarrow> bool" where
  "at_boundary W pv inp =
     ((case pv of None \<Rightarrow> False | Some c \<Rightarrow> W c) \<noteq> (case inp of [] \<Rightarrow> False | c # r \<Rightarrow> W c))"

fun set_cap :: "nat \<Rightarrow> ustring \<Rightarrow> mstate \<Rightarrow> mstate" where
  "set_cap n inp (MState pv r cs) = MState pv r ((n, take (length inp - length r) inp) # cs)"

text \<open>
  All the ways a pattern matches at a position, in the order a backtracking matcher
  tries them: the left alternative first, a greedy repetition longest first, a lazy one
  shortest first, an optional part present first. The head of the list is the match
  \<^verbatim>\<open>re\<close> reports.
\<close>

fun ms :: "rx \<Rightarrow> mstate \<Rightarrow> mstate list" where
  "ms (Cls P) (MState pv inp cs) =
     (case inp of [] \<Rightarrow> [] | c # r \<Rightarrow> if P c then [MState (Some c) r cs] else [])"
| "ms (Rep g n P) (MState pv inp cs) =
     (if g then rev (rep_cands P n pv inp cs) else rep_cands P n pv inp cs)"
| "ms (Seq a b) st = concat (map (ms b) (ms a st))"
| "ms (Alt a b) st = ms a st @ ms b st"
| "ms (Opt a) st = ms a st @ [st]"
| "ms (Grp n a) (MState pv inp cs) = map (set_cap n inp) (ms a (MState pv inp cs))"
| "ms (Bnd W) (MState pv inp cs) = (if at_boundary W pv inp then [MState pv inp cs] else [])"
| "ms Eos (MState pv inp cs) = (if inp = [] \<or> inp = [10] then [MState pv inp cs] else [])"
| "ms Eps st = [st]"

fun consumed :: "ustring \<Rightarrow> mstate \<Rightarrow> bool" where
  "consumed inp (MState pv r cs) = (length r < length inp)"

text \<open>
  The match at one position. With \<open>adv\<close> set the match must not be empty: that is how
  \<^verbatim>\<open>re.sub\<close> goes on after an empty match.
\<close>

definition match_at :: "rx \<Rightarrow> bool \<Rightarrow> nat option \<Rightarrow> ustring \<Rightarrow> mstate option" where
  "match_at r adv pv inp =
     (case (if adv then filter (consumed inp) (ms r (MState pv inp []))
            else ms r (MState pv inp [])) of
        [] \<Rightarrow> None
      | m # rest \<Rightarrow> Some m)"

fun search :: "rx \<Rightarrow> nat option \<Rightarrow> ustring \<Rightarrow> mstate option" where
  "search r pv [] = match_at r False pv []"
| "search r pv (c # cs) =
     (case match_at r False pv (c # cs) of
        Some m \<Rightarrow> Some m
      | None \<Rightarrow> search r (Some c) cs)"

definition re_search :: "rx \<Rightarrow> ustring \<Rightarrow> mstate option" where
  "re_search r s = search r None s"

fun grp :: "nat \<Rightarrow> mstate \<Rightarrow> ustring option" where
  "grp n (MState pv r cs) = map_of cs n"

text \<open>
  \<^verbatim>\<open>match.group(n) or ''\<close>: a group that took no part in the match reads as empty.
  Groups 1 and 2 of the brand templates are read without the \<^verbatim>\<open>or\<close>; they are mandatory
  parts of their templates, so they are set in every match (\<open>brand_groups_set\<close> below).
\<close>

definition group_or_empty :: "nat \<Rightarrow> mstate \<Rightarrow> ustring" where
  "group_or_empty n m = (case grp n m of None \<Rightarrow> [] | Some s \<Rightarrow> s)"

text \<open>
  \<^verbatim>\<open>re.sub(pattern, repl, string)\<close>: the matches are found from left to right and do not
  overlap; after an empty match the next one at the same position must be non-empty.
\<close>

function sub_from :: "rx \<Rightarrow> ustring \<Rightarrow> bool \<Rightarrow> nat option \<Rightarrow> ustring \<Rightarrow> ustring" where
  "sub_from r repl adv pv inp =
     (case match_at r adv pv inp of
        None \<Rightarrow> (case inp of [] \<Rightarrow> [] | c # cs \<Rightarrow> c # sub_from r repl False (Some c) cs)
      | Some (MState pv' rest caps) \<Rightarrow>
          (if length rest < length inp then repl @ sub_from r repl False pv' rest
           else repl @ sub_from r repl True pv inp))"
  by pat_completeness auto
termination
proof (relation "measure (\<lambda>(r, repl, adv, pv, inp). 2 * length inp + (if adv then 0 else 1))")
  fix r :: rx and repl :: ustring and adv :: bool and pv :: "nat option" and inp :: ustring
  fix m pv' rest caps
  assume found: "match_at r adv pv inp = Some m" "m = MState pv' rest caps"
    and stuck: "\<not> length rest < length inp"
  have "\<not> adv"
  proof
    assume adv
    with found obtain xs where
      "filter (consumed inp) (ms r (MState pv inp [])) = MState pv' rest caps # xs"
      by (auto simp: match_at_def split: list.splits)
    then have "MState pv' rest caps \<in> set (filter (consumed inp) (ms r (MState pv inp [])))"
      by (metis list.set_intros(1))
    with stuck show False by simp
  qed
  then show "((r, repl, True, pv, inp), r, repl, adv, pv, inp)
      \<in> measure (\<lambda>(r, repl, adv, pv, inp). 2 * length inp + (if adv then 0 else 1))"
    by simp
qed auto

declare sub_from.simps [simp del]

definition re_sub :: "rx \<Rightarrow> ustring \<Rightarrow> ustring \<Rightarrow> ustring" where
  "re_sub r repl s = sub_from r repl False None s"

subsection \<open>The patterns of \<^verbatim>\<open>clean_title_with_regex\<close>\<close>

text \<open>\<open>lit\<close> is a run of literal characters under \<^verbatim>\<open>re.IGNORECASE\<close>, \<open>chr\<close> one code point
  that has no case.\<close>

definition lit :: "string \<Rightarrow> rx" where
  "lit s = foldr (\<lambda>c r. Seq (Cls (ci_eq (of_char c))) r) s Eps"

definition chr :: "nat \<Rightarrow> rx" where
  "chr p = Cls (\<lambda>c. c = p)"

definition seqs :: "rx list \<Rightarrow> rx" where
  "seqs rs = foldr Seq rs Eps"

definition alts :: "rx list \<Rightarrow> rx" where
  "alts rs = foldr Alt (butlast rs) (last rs)"

text \<open>\<^verbatim>\<open>\s*\<close>, \<^verbatim>\<open>\s+\<close> and \<^verbatim>\<open>\d+\<close>.\<close>

definition ws0 :: rx where
  "ws0 = Rep True 0 is_space"

definition ws1 :: rx where
  "ws1 = Rep True (Suc 0) is_space"

definition digits1 :: "unicode_tables \<Rightarrow> rx" where
  "digits1 U = Rep True (Suc 0) (is_digit U)"

text \<open>
  The list \<^verbatim>\<open>garbage_patterns\<close>, in the order of the source:
  \<^verbatim>\<open>PTA\s*Approved?\<close>, \<^verbatim>\<open>Official\s*Warranty\<close>, \<^verbatim>\<open>Fast\s*Shipping\<close>,
  \<^verbatim>\<open>Cash\s*on\s*Delivery\<close>, \<^verbatim>\<open>Free\s*Delivery\<close>, \<^verbatim>\<open>Installments?\<close>,
  \<^verbatim>\<open>Easy\s*Payment\<close>, \<^verbatim>\<open>Original\<close>, \<^verbatim>\<open>Authentic\<close>, \<^verbatim>\<open>\bNew\b\<close>, \<^verbatim>\<open>\bSealed\b\<close>,
  \<^verbatim>\<open>In\s*Stock\<close>, \<^verbatim>\<open>Available\<close>, \<^verbatim>\<open>Limited\s*Stock\<close>, \<^verbatim>\<open>Hot\s*Deal\<close>, \<^verbatim>\<open>Sale\<close>,
  \<^verbatim>\<open>Discount\<close>, \<^verbatim>\<open>\d+%\s*Off\<close>, \<^verbatim>\<open>Special\s*Offer\<close>, the rupee sign (U+20B9) or
  \<^verbatim>\<open>Rs\.?\<close> or \<^verbatim>\<open>PKR\<close>, a run of the marks U+2B50, U+2605, U+2713, U+2714, the bar
  and the bullet (U+2022).
\<close>

definition garbage_patterns :: "unicode_tables \<Rightarrow> rx list" where
  "garbage_patterns U =
    [ seqs [lit ''PTA'', ws0, lit ''Approve'', Opt (lit ''d'')],
      seqs [lit ''Official'', ws0, lit ''Warranty''],
      seqs [lit ''Fast'', ws0, lit ''Shipping''],
      seqs [lit ''Cash'', ws0, lit ''on'', ws0, lit ''Delivery''],
      seqs [lit ''Free'', ws0, lit ''Delivery''],
      seqs [lit ''Installment'', Opt (lit ''s'')],
      seqs [lit ''Easy'', ws0, lit ''Payment''],
      lit ''Original'',
      lit ''Authentic'',
      seqs [Bnd (is_word U), lit ''New'', Bnd (is_word U)],
      seqs [Bnd (is_word U), lit ''Sealed'', Bnd (is_word U)],
      seqs [lit ''In'', ws0, lit ''Stock''],
      lit ''Available'',
      seqs [lit ''Limited'', ws0, lit ''Stock''],
      seqs [lit ''Hot'', ws0, lit ''Deal''],
      lit ''Sale'',
      lit ''Discount'',
      seqs [digits1 U, chr 37, ws0, lit ''Off''],
      seqs [lit ''Special'', ws0, lit ''Offer''],
      alts [chr 8377, seqs [lit ''Rs'', Opt (chr 46)], lit ''PKR''],
      Rep True (Suc 0) (\<lambda>c. c = 11088 \<or> c = 9733 \<or> c = 10003 \<or> c = 10004),
      chr 124,
      chr 8226 ]"

text \<open>The loop over \<^verbatim>\<open>garbage_patterns\<close>: each pattern works on what the one before left.\<close>

definition strip_garbage :: "unicode_tables \<Rightarrow> ustring \<Rightarrow> ustring" where
  "strip_garbage U title = fold (\<lambda>pattern cleaned. re_sub pattern [] cleaned) (garbage_patterns U) title"

text \<open>\<^verbatim>\<open>[|\<bullet>\-_]+\<close> (bar, bullet, hyphen, underscore) and \<^verbatim>\<open>\([^)]*\)\<close>.\<close>

definition is_sep :: "nat \<Rightarrow> bool" where
  "is_sep c = (c = 124 \<or> c = 8226 \<or> c = 45 \<or> c = 95)"

definition sep_run :: rx where
  "sep_run = Rep True (Suc 0) is_sep"

definition paren_group :: rx where
  "paren_group = seqs [chr 40, Rep True 0 (\<lambda>c. c \<noteq> 41), chr 41]"

definition normalize_symbols :: "ustring \<Rightarrow> ustring" where
  "normalize_symbols s = strip (re_sub paren_group [] (re_sub sep_run [32] (re_sub ws1 [32] s)))"

text \<open>
  The mobile template, an f-string around the brand:
  \<^verbatim>\<open>({brand})\s+([A-Z0-9][A-Za-z0-9\s]+?)(?:\s+(\d+GB))?(?:\s+(\d+GB))?\<close>.
  The model group ends in the lazy \<^verbatim>\<open>+?\<close>.
\<close>

definition mobile_brands :: "string list" where
  "mobile_brands = [''Samsung'', ''iPhone'', ''Xiaomi'', ''Oppo'', ''Vivo'', ''Realme'',
     ''Infinix'', ''Tecno'', ''OnePlus'', ''Google'', ''Nokia'', ''Huawei'', ''Motorola'']"

definition alnum_ci :: "nat \<Rightarrow> bool" where
  "alnum_ci c = (alpha_ci c \<or> ascii_digit c)"

definition alnum_space_ci :: "nat \<Rightarrow> bool" where
  "alnum_space_ci c = (alpha_ci c \<or> ascii_digit c \<or> is_space c)"

definition gb_token :: "unicode_tables \<Rightarrow> rx" where
  "gb_token U = seqs [digits1 U, lit ''GB'']"

definition mobile_pattern :: "unicode_tables \<Rightarrow> string \<Rightarrow> rx" where
  "mobile_pattern U brand =
     seqs [Grp 1 (lit brand), ws1,
           Grp 2 (seqs [Cls alnum_ci, Rep False (Suc 0) alnum_space_ci]),
           Opt (seqs [ws1, Grp 3 (gb_token U)]),
           Opt (seqs [ws1, Grp 4 (gb_token U)])]"

text \<open>\<^verbatim>\<open>\s+(with|and|for|official|factory).*$\<close>, erased from the model name.\<close>

definition model_junk :: rx where
  "model_junk =
     seqs [ws1,
           Grp 1 (alts [lit ''with'', lit ''and'', lit ''for'', lit ''official'', lit ''factory'']),
           Rep True 0 (\<lambda>c. c \<noteq> 10), Eos]"

definition mobile_rebuild :: "mstate \<Rightarrow> ustring" where
  "mobile_rebuild m =
     (let brand_name = group_or_empty 1 m;
          model = strip (group_or_empty 2 m);
          ram = group_or_empty 3 m;
          storage = group_or_empty 4 m;
          model = re_sub model_junk [] model
      in strip (brand_name @ [32] @ model @ [32] @ ram @ [32] @ storage))"

text \<open>The \<^verbatim>\<open>for brand in mobile_brands\<close> loop: the first brand that is found ends it.\<close>

fun mobile_extract :: "unicode_tables \<Rightarrow> string list \<Rightarrow> ustring \<Rightarrow> ustring" where
  "mobile_extract U [] cleaned = cleaned"
| "mobile_extract U (brand # brands) cleaned =
     (case re_search (mobile_pattern U brand) cleaned of
        Some m \<Rightarrow> mobile_rebuild m
      | None \<Rightarrow> mobile_extract U brands cleaned)"

text \<open>
  The laptop template \<^verbatim>\<open>({brand})\s+([A-Za-z0-9\s]+?)(?:\s+(i[3579]|Ryzen\s*[3579]|M[12]))?\<close>,
  and the two searches for RAM and storage in the whole string:
  \<^verbatim>\<open>(\d+GB)\s*RAM\<close> and \<^verbatim>\<open>(\d+GB|\d+TB)\s*(?:SSD|HDD|Storage)\<close>.
\<close>

definition laptop_brands :: "string list" where
  "laptop_brands = [''HP'', ''Dell'', ''Lenovo'', ''Asus'', ''Acer'', ''MSI'', ''Apple'', ''MacBook'']"

definition odd_digit :: "nat \<Rightarrow> bool" where
  "odd_digit c = (c = 51 \<or> c = 53 \<or> c = 55 \<or> c = 57)"

definition laptop_pattern :: "string \<Rightarrow> rx" where
  "laptop_pattern brand =
     seqs [Grp 1 (lit brand), ws1,
           Grp 2 (Rep False (Suc 0) alnum_space_ci),
           Opt (seqs [ws1,
                      Grp 3 (alts [seqs [lit ''i'', Cls odd_digit],
                                   seqs [lit ''Ryzen'', ws0, Cls odd_digit],
                                   seqs [lit ''M'', Cls (\<lambda>c. c = 49 \<or> c = 50)]])])]"

definition ram_pattern :: "unicode_tables \<Rightarrow> rx" where
  "ram_pattern U = seqs [Grp 1 (gb_token U), ws0, lit ''RAM'']"

definition storage_pattern :: "unicode_tables \<Rightarrow> rx" where
  "storage_pattern U =
     seqs [Grp 1 (alts [gb_token U, seqs [digits1 U, lit ''TB'']]), ws0,
           alts [lit ''SSD'', lit ''HDD'', lit ''Storage'']]"

definition laptop_rebuild :: "unicode_tables \<Rightarrow> ustring \<Rightarrow> mstate \<Rightarrow> ustring" where
  "laptop_rebuild U cleaned m =
     (let brand_name = group_or_empty 1 m;
          model = strip (group_or_empty 2 m);
          processor = group_or_empty 3 m;
          ram = (case re_search (ram_pattern U) cleaned of
                   Some ram_match \<Rightarrow> group_or_empty 1 ram_match | None \<Rightarrow> []);
          storage = (case re_search (storage_pattern U) cleaned of
                   Some storage_match \<Rightarrow> group_or_empty 1 storage_match | None \<Rightarrow> [])
      in strip (brand_name @ [32] @ model @ [32] @ processor @ [32] @ ram @ [32] @ storage))"

fun laptop_extract :: "unicode_tables \<Rightarrow> string list \<Rightarrow> ustring \<Rightarrow> ustring" where
  "laptop_extract U [] cleaned = cleaned"
| "laptop_extract U (brand # brands) cleaned =
     (case re_search (laptop_pattern brand) cleaned of
        Some m \<Rightarrow> laptop_rebuild U cleaned m
      | None \<Rightarrow> laptop_extract U brands cleaned)"

text \<open>
  \<^verbatim>\<open>clean_title_with_regex\<close>: the noise patterns, the clean-up of whitespace and symbols,
  the mobile loop, the laptop loop on what the mobile loop left, and the final clean-up.
\<close>

definition clean_title_with_regex :: "unicode_tables \<Rightarrow> ustring \<Rightarrow> ustring" where
  "clean_title_with_regex U title =
     (let cleaned = normalize_symbols (strip_garbage U title);
          cleaned = mobile_extract U mobile_brands cleaned;
          cleaned = laptop_extract U laptop_brands cleaned
      in strip (re_sub ws1 [32] cleaned))"

subsection \<open>JSON values, exceptions and the process-wide configuration\<close>

text \<open>
  What \<^verbatim>\<open>request.json\<close> holds under a key is any JSON value. \<open>truthy\<close> is Python's truth
  value of it, the test behind \<^verbatim>\<open>if not title\<close>.
\<close>

datatype jval =
    JNull
  | JBool bool
  | JNum real
  | JStr ustring
  | JArr "jval list"
  | JObj "(ustring \<times> jval) list"

fun truthy :: "jval \<Rightarrow> bool" where
  "truthy JNull = False"
| "truthy (JBool b) = b"
| "truthy (JNum x) = (x \<noteq> 0)"
| "truthy (JStr s) = (s \<noteq> [])"
| "truthy (JArr xs) = (xs \<noteq> [])"
| "truthy (JObj kvs) = (kvs \<noteq> [])"

datatype py_exn = TypeError | TimeoutError | ProviderError

text \<open>
  The configuration is fixed when the module is loaded: the flag \<^verbatim>\<open>AI_ENABLED\<close>, whether
  the platform has \<^verbatim>\<open>signal.SIGALRM\<close>, and the two things the program takes from outside,
  the provider behind \<^verbatim>\<open>model.generate_content\<close> and the Unicode tables. The provider
  answers the k-th call for a prompt with the seconds it takes and the text of its
  response, or \<open>None\<close> when it raises.
\<close>

record env =
  AI_ENABLED :: bool
  has_sigalrm :: bool
  provider :: "nat \<Rightarrow> ustring \<Rightarrow> real \<times> ustring option"
  tables :: unicode_tables

text \<open>
  The state that changes while the process runs: the entries of the \<^verbatim>\<open>lru_cache\<close> around
  \<^verbatim>\<open>cached_clean_title\<close> (most recently used first) with its two counters, and the calls
  made to the provider so far, each with its prompt, the alarm that guarded it and what
  \<^verbatim>\<open>clean_title_with_ai\<close> returned for it.
\<close>

record ai_call =
  call_prompt :: ustring
  call_alarm :: "nat option"
  call_result :: "ustring option"

record server_state =
  entries :: "(ustring \<times> ustring option) list"
  hits :: nat
  misses :: nat
  ai_calls :: "ai_call list"

subsection \<open>\<^verbatim>\<open>clean_title_with_ai\<close>\<close>

definition nl :: ustring where
  "nl = [10]"

definition dq :: ustring where
  "dq = [34]"

definition prompt_head :: ustring where
  "prompt_head =
     ustr ''Extract only the essential product information from this title.'' @ nl @ nl @
     ustr ''Remove: promotional text, warranty info, shipping info, seller info, '' @
     ustr ''PTA approved, official warranty, cash on delivery, installment, '' @
     ustr ''sealed, original, authentic, new, limited stock, sale, discount, '' @
     ustr ''special offer, hot deal.'' @ nl @ nl @
     ustr ''Keep: brand, model, RAM, storage, screen size, processor, color '' @
     ustr ''(only if important).'' @ nl @ nl @
     ustr ''Title: ''"

definition prompt_tail :: ustring where
  "prompt_tail =
     nl @ nl @
     ustr ''Return ONLY the cleaned product name with key specs in this exact '' @
     ustr ''format:'' @ nl @
     ustr ''Brand Model RAM Storage'' @ nl @ nl @
     ustr ''Examples:'' @ nl @
     ustr ''- Input: '' @ dq @ ustr ''Samsung Galaxy A15 8GB/256GB PTA Approved Official Warranty Fast '' @
     ustr ''Shipping'' @ dq @ nl @
     ustr ''  Output: '' @ dq @ ustr ''Samsung Galaxy A15 8GB 256GB'' @ dq @ nl @
     ustr ''  '' @ nl @
     ustr ''- Input: '' @ dq @ ustr ''iPhone 13 Pro Max 256GB Factory Unlocked Original Apple Warranty'' @ dq @ nl @
     ustr ''  Output: '' @ dq @ ustr ''iPhone 13 Pro Max 256GB'' @ dq @ nl @
     ustr ''  '' @ nl @
     ustr ''- Input: '' @ dq @ ustr ''HP Pavilion Gaming Laptop i5 11th Gen 8GB RAM 512GB SSD'' @ dq @ nl @
     ustr ''  Output: '' @ dq @ ustr ''HP Pavilion Gaming i5 11th Gen 8GB 512GB'' @ dq @ nl @
     nl @
     ustr ''Now clean this title (reply with ONLY the cleaned version, no explanation):''"

definition build_prompt :: "ustring \<Rightarrow> ustring" where
  "build_prompt title = prompt_head @ title @ prompt_tail"

text \<open>
  The call of the provider between \<^verbatim>\<open>signal.alarm(3)\<close> and \<^verbatim>\<open>signal.alarm(0)\<close>. When an
  alarm is set and the provider takes longer, the handler raises \<^verbatim>\<open>TimeoutError\<close> in place
  of whatever the provider would have done.
\<close>

definition generate_content :: "env \<Rightarrow> nat \<Rightarrow> nat option \<Rightarrow> ustring \<Rightarrow> py_exn + ustring" where
  "generate_content E k alarm prompt =
     (case provider E k prompt of
        (seconds, outcome) \<Rightarrow>
          if (case alarm of None \<Rightarrow> False | Some deadline \<Rightarrow> real deadline < seconds)
          then Inl TimeoutError
          else (case outcome of None \<Rightarrow> Inl ProviderError | Some text \<Rightarrow> Inr text))"

text \<open>\<^verbatim>\<open>cleaned.replace('"', '').replace("'", "")\<close>\<close>

definition remove_quotes :: "ustring \<Rightarrow> ustring" where
  "remove_quotes s = filter (\<lambda>c. c \<noteq> 39) (filter (\<lambda>c. c \<noteq> 34) s)"

definition clean_title_with_ai :: "env \<Rightarrow> server_state \<Rightarrow> ustring \<Rightarrow> ustring option \<times> server_state" where
  "clean_title_with_ai E st title =
     (if \<not> AI_ENABLED E then (None, st)
      else
        let alarm = (if has_sigalrm E then Some 3 else None);
            prompt = build_prompt title;
            result =
              (case generate_content E (length (ai_calls st)) alarm prompt of
                 Inr text \<Rightarrow> Some (strip (remove_quotes (strip text)))
               | Inl TimeoutError \<Rightarrow> None
               | Inl e \<Rightarrow> None)
        in (result,
            st\<lparr>ai_calls := ai_calls st @
                 [\<lparr>call_prompt = prompt, call_alarm = alarm, call_result = result\<rparr>]\<rparr>))"

subsection \<open>\<^verbatim>\<open>cached_clean_title\<close>: the \<^verbatim>\<open>lru_cache\<close> of 1000 entries\<close>

text \<open>
  The key is the title as it is. A hit returns the stored value, whatever it is, and makes
  the entry the most recent one. A miss calls the wrapped function and stores what it
  returns, whatever it is; when the cache is full the least recently used entry goes.
\<close>

definition maxsize :: nat where
  "maxsize = 1000"

definition cached_clean_title :: "env \<Rightarrow> server_state \<Rightarrow> ustring \<Rightarrow> ustring option \<times> server_state" where
  "cached_clean_title E st title =
     (case map_of (entries st) title of
        Some result \<Rightarrow>
          (result,
           st\<lparr>entries := (title, result) # filter (\<lambda>e. fst e \<noteq> title) (entries st),
              hits := hits st + 1\<rparr>)
      | None \<Rightarrow>
          (case clean_title_with_ai E (st\<lparr>misses := misses st + 1\<rparr>) title of
             (result, st') \<Rightarrow>
               (result,
                st'\<lparr>entries := (title, result) #
                      (if length (entries st') < maxsize then entries st'
                       else butlast (entries st'))\<rparr>)))"

subsection \<open>\<^verbatim>\<open>/clean-title\<close>\<close>

datatype cleaning_method = AI | Regex | NoMethod

record cleaned_item =
  original :: jval
  cleaned :: jval

record cleaning_result = cleaned_item +
  success :: bool
  method_used :: cleaning_method
  confidence :: real
  time_ms :: "int option"
  error :: "py_exn option"

text \<open>
  A response is the JSON object of a cleaning (status 200) or an error object with its
  status.
\<close>

datatype response = Cleaned cleaning_result | Refused nat ustring

text \<open>
  The body of a request that is a JSON object, with what it holds under \<^verbatim>\<open>title\<close> and
  \<^verbatim>\<open>timeout\<close>; the handler reads them with \<^verbatim>\<open>data.get('title', '')\<close> and
  \<^verbatim>\<open>data.get('timeout', 3)\<close> (\<open>title_of\<close> and \<open>timeout_of\<close> below).
\<close>

record request =
  req_title :: "jval option"
  req_timeout :: "jval option"

text \<open>
  \<^verbatim>\<open>elapsed > timeout\<close>: a float compares with a number and with a boolean; with any other
  value the comparison raises \<^verbatim>\<open>TypeError\<close>.
\<close>

fun py_gt :: "real \<Rightarrow> jval \<Rightarrow> py_exn + bool" where
  "py_gt x (JNum y) = Inr (y < x)"
| "py_gt x (JBool b) = Inr ((if b then 1 else 0) < x)"
| "py_gt x v = Inl TypeError"

text \<open>\<^verbatim>\<open>int(x)\<close> on a float rounds towards zero.\<close>

definition py_int :: "real \<Rightarrow> int" where
  "py_int x = (if 0 \<le> x then \<lfloor>x\<rfloor> else \<lceil>x\<rceil>)"

text \<open>
  Plan A, the inner \<^verbatim>\<open>try\<close>: the cached cleaner, then the comparison of the elapsed time
  with the caller's timeout. \<open>clock k\<close> is what the k-th call of \<^verbatim>\<open>time.time()\<close> in the
  handler returns.
\<close>

definition plan_a ::
  "env \<Rightarrow> server_state \<Rightarrow> ustring \<Rightarrow> jval \<Rightarrow> (nat \<Rightarrow> real) \<Rightarrow> ustring option \<times> server_state" where
  "plan_a E st title timeout clock =
     (case cached_clean_title E st title of
        (ai_result, st') \<Rightarrow>
          (let elapsed = clock 1 - clock 0
           in case py_gt elapsed timeout of
                Inr too_slow \<Rightarrow> (if too_slow then (None, st') else (ai_result, st'))
              | Inl e \<Rightarrow> (None, st')))"

definition result_of ::
  "jval \<Rightarrow> ustring \<Rightarrow> cleaning_method \<Rightarrow> real \<Rightarrow> real \<Rightarrow> response" where
  "result_of title text m conf seconds =
     Cleaned \<lparr>original = title, cleaned = JStr text, success = True, method_used = m,
              confidence = conf, time_ms = Some (py_int (seconds * 1000)), error = None\<rparr>"

text \<open>Plan B, taken when \<^verbatim>\<open>not ai_result\<close>: the answer of the regex cleaner, as it is.\<close>

definition plan_b :: "env \<Rightarrow> jval \<Rightarrow> ustring \<Rightarrow> real \<Rightarrow> response" where
  "plan_b E title s seconds =
     result_of title (clean_title_with_regex (tables E) s) Regex (3 / 4) seconds"

text \<open>
  The outer \<^verbatim>\<open>try\<close> block. A title that is not a string and not falsy raises: a number,
  \<^verbatim>\<open>true\<close> and an object at \<^verbatim>\<open>title[:60]\<close>, a list in \<^verbatim>\<open>re.sub\<close> (after
  \<^verbatim>\<open>cached_clean_title\<close> refused it as unhashable, before it touched the cache).
\<close>

definition clean_title_body ::
  "env \<Rightarrow> server_state \<Rightarrow> jval \<Rightarrow> jval \<Rightarrow> (nat \<Rightarrow> real) \<Rightarrow> (py_exn + response) \<times> server_state" where
  "clean_title_body E st title timeout clock =
     (if \<not> truthy title then (Inr (Refused 400 (ustr ''No title provided'')), st)
      else
        case title of
          JStr s \<Rightarrow>
            (let start_time = clock 0;
                 (ai_result, st', finish) =
                   (if AI_ENABLED E
                    then (case plan_a E st s timeout clock of (r, st') \<Rightarrow> (r, st', clock 2))
                    else (None, st, clock 1))
             in case ai_result of
                  None \<Rightarrow> (Inr (plan_b E title s (finish - start_time)), st')
                | Some text \<Rightarrow>
                    if text = [] then (Inr (plan_b E title s (finish - start_time)), st')
                    else (Inr (result_of title text AI (19 / 20) (finish - start_time)), st'))
        | JArr xs \<Rightarrow> (Inl TypeError, st)
        | other \<Rightarrow> (Inl TypeError, st))"

text \<open>The handler: the \<^verbatim>\<open>except\<close> of the outer \<^verbatim>\<open>try\<close> is the ultimate fallback.\<close>

definition title_of :: "request \<Rightarrow> jval" where
  "title_of req = (case req_title req of None \<Rightarrow> JStr [] | Some v \<Rightarrow> v)"

definition timeout_of :: "request \<Rightarrow> jval" where
  "timeout_of req = (case req_timeout req of None \<Rightarrow> JNum 3 | Some v \<Rightarrow> v)"

definition ultimate_fallback :: "jval \<Rightarrow> py_exn \<Rightarrow> response" where
  "ultimate_fallback title e =
     Cleaned \<lparr>original = title, cleaned = title, success = True, method_used = NoMethod,
              confidence = 1 / 2, time_ms = None, error = Some e\<rparr>"

definition clean_title_endpoint ::
  "env \<Rightarrow> server_state \<Rightarrow> request \<Rightarrow> (nat \<Rightarrow> real) \<Rightarrow> response \<times> server_state" where
  "clean_title_endpoint E st req clock =
     (case clean_title_body E st (title_of req) (timeout_of req) clock of
        (Inr resp, st') \<Rightarrow> (resp, st')
      | (Inl e, st') \<Rightarrow> (ultimate_fallback (title_of req) e, st'))"

subsection \<open>\<^verbatim>\<open>/clean-batch\<close> and \<^verbatim>\<open>/health\<close>\<close>





record health =
  status :: ustring
  service :: ustring
  ai_available :: bool
  cache_size :: nat
  cache_hits :: nat
  cache_misses :: nat
  uptime :: ustring

definition health_check :: "env \<Rightarrow> server_state \<Rightarrow> health" where
  "health_check E st =
     \<lparr>status = ustr ''ok'', service = ustr ''Pak Buy Pro AI Server'',
      ai_available = AI_ENABLED E, cache_size = length (entries st),
      cache_hits = hits st, cache_misses = misses st, uptime = ustr ''running''\<rparr>"

subsection \<open>Concrete configurations\<close>

text \<open>
  Inputs on which the statements below are evaluated: tables with nothing beyond ASCII,
  a provider that always answers with the same text after the same time, one that raises
  on one call only, the state right after start-up, a clock that advances by the same
  step between readings, and a title with the answer a provider may give for it.
\<close>

definition ascii_only :: unicode_tables where
  "ascii_only = \<lparr>decimal_tab = (\<lambda>c. False), alnum_tab = (\<lambda>c. False)\<rparr>"

definition steady_provider :: "real \<Rightarrow> ustring \<Rightarrow> nat \<Rightarrow> ustring \<Rightarrow> real \<times> ustring option" where
  "steady_provider seconds text k prompt = (seconds, Some text)"

definition failing_at :: "nat \<Rightarrow> ustring \<Rightarrow> nat \<Rightarrow> ustring \<Rightarrow> real \<times> ustring option" where
  "failing_at j text k prompt = (if k = j then (0, None) else (0, Some text))"

definition service_env :: "bool \<Rightarrow> (nat \<Rightarrow> ustring \<Rightarrow> real \<times> ustring option) \<Rightarrow> env" where
  "service_env enabled p =
     \<lparr>AI_ENABLED = enabled, has_sigalrm = True, provider = p, tables = ascii_only\<rparr>"

definition at_startup :: server_state where
  "at_startup = \<lparr>entries = [], hits = 0, misses = 0, ai_calls = []\<rparr>"

definition ticking :: "real \<Rightarrow> nat \<Rightarrow> real" where
  "ticking step k = step * real k"

definition sample_title :: ustring where
  "sample_title = ustr ''Nokia 105 PTA Approved''"

definition sample_answer :: ustring where
  "sample_answer = ustr ''Nokia 105''"

definition sample_request :: "jval \<Rightarrow> jval option \<Rightarrow> request" where
  "sample_request title tmo = \<lparr>req_title = Some title, req_timeout = tmo\<rparr>"

section \<open>Properties\<close>

subsection \<open>The cache\<close>

lemma cached_hit:
  assumes "map_of (entries st) title = Some v"
  shows "cached_clean_title E st title =
           (v, st\<lparr>entries := (title, v) # filter (\<lambda>e. fst e \<noteq> title) (entries st),
                 hits := hits st + 1\<rparr>)"
  using assms by (simp add: cached_clean_title_def)

lemma cached_miss:
  assumes "map_of (entries st) title = None"
  shows "cached_clean_title E st title =
           (fst (clean_title_with_ai E (st\<lparr>misses := misses st + 1\<rparr>) title),
            (snd (clean_title_with_ai E (st\<lparr>misses := misses st + 1\<rparr>) title))
              \<lparr>entries := (title, fst (clean_title_with_ai E (st\<lparr>misses := misses st + 1\<rparr>) title)) #
                 (if length (entries st) < maxsize then entries st else butlast (entries st))\<rparr>)"
  using assms by (simp add: cached_clean_title_def clean_title_with_ai_def Let_def split: prod.splits)

text \<open>Whatever a call returns is the entry of its title afterwards.\<close>

lemma cached_stores:
  "map_of (entries (snd (cached_clean_title E st title))) title =
     Some (fst (cached_clean_title E st title))"
  by (cases "map_of (entries st) title") (simp_all add: cached_miss cached_hit)

lemma ai_enabled_effect:
  assumes "AI_ENABLED E"
  shows "length (ai_calls (snd (clean_title_with_ai E st title))) = length (ai_calls st) + 1"
    and "hits (snd (clean_title_with_ai E st title)) = hits st"
    and "misses (snd (clean_title_with_ai E st title)) = misses st"
    and "entries (snd (clean_title_with_ai E st title)) = entries st"
  using assms by (simp_all add: clean_title_with_ai_def Let_def)

lemma ai_failure_result:
  assumes "AI_ENABLED E"
    and "generate_content E (length (ai_calls st)) (if has_sigalrm E then Some 3 else None)
           (build_prompt title) = Inl e"
  shows "fst (clean_title_with_ai E (st\<lparr>misses := m\<rparr>) title) = None"
  using assms by (cases e) (simp_all add: clean_title_with_ai_def Let_def)

subsection \<open>The handlers, case by case\<close>

lemma plan_a_state: "snd (plan_a E st s timeout clock) = snd (cached_clean_title E st s)"
  by (simp add: plan_a_def Let_def split: prod.splits sum.splits)


text \<open>The handler on a title that is a non-empty string.\<close>

lemma body_on_string:
  assumes "s \<noteq> []"
  shows "clean_title_body E st (JStr s) timeout clock =
     (if AI_ENABLED E
      then (case fst (plan_a E st s timeout clock) of
              None \<Rightarrow> Inr (plan_b E (JStr s) s (clock 2 - clock 0))
            | Some text \<Rightarrow>
                if text = [] then Inr (plan_b E (JStr s) s (clock 2 - clock 0))
                else Inr (result_of (JStr s) text AI (19 / 20) (clock 2 - clock 0)),
            snd (cached_clean_title E st s))
      else (Inr (plan_b E (JStr s) s (clock 1 - clock 0)), st))"
proof (cases "AI_ENABLED E")
  case False
  with assms show ?thesis by (simp add: clean_title_body_def)
next
  case True
  obtain r st' where pa: "plan_a E st s timeout clock = (r, st')"
    by (cases "plan_a E st s timeout clock")
  then have "st' = snd (cached_clean_title E st s)"
    using plan_a_state [of E st s timeout clock] by simp
  with assms True pa show ?thesis
    by (cases r) (simp_all add: clean_title_body_def)
qed

lemma body_on_falsy:
  assumes "\<not> truthy title"
  shows "clean_title_body E st title timeout clock = (Inr (Refused 400 (ustr ''No title provided'')), st)"
  using assms by (simp add: clean_title_body_def)

lemma body_on_other:
  assumes "truthy title" and "\<And>s. title \<noteq> JStr s"
  shows "clean_title_body E st title timeout clock = (Inl TypeError, st)"
  using assms by (cases title) (auto simp: clean_title_body_def)

lemma endpoint_state:
  "snd (clean_title_endpoint E st req clock) =
     (case title_of req of
        JStr s \<Rightarrow> if s \<noteq> [] \<and> AI_ENABLED E then snd (cached_clean_title E st s) else st
      | other \<Rightarrow> st)"
proof (cases "truthy (title_of req)")
  case False
  then show ?thesis
    by (cases "title_of req") (simp_all add: clean_title_endpoint_def body_on_falsy)
next
  case True
  show ?thesis
  proof (cases "\<exists>s. title_of req = JStr s")
    case True
    then obtain s where s: "title_of req = JStr s" by blast
    with \<open>truthy (title_of req)\<close> have "s \<noteq> []" by simp
    then show ?thesis
      by (simp add: clean_title_endpoint_def s body_on_string split: option.splits)
  next
    case False
    then have "clean_title_body E st (title_of req) (timeout_of req) clock = (Inl TypeError, st)"
      using True by (intro body_on_other) auto
    then show ?thesis
      using False by (cases "title_of req") (simp_all add: clean_title_endpoint_def)
  qed
qed


lemma cached_calls:
  "\<exists>new. ai_calls (snd (cached_clean_title E st s)) = ai_calls st @ new \<and>
         list_all (\<lambda>c. call_prompt c = build_prompt s \<and>
                       call_alarm c = (if has_sigalrm E then Some 3 else None)) new"
proof (cases "map_of (entries st) s")
  case None
  show ?thesis
    unfolding cached_miss [OF None] by (simp add: clean_title_with_ai_def Let_def)
next
  case (Some v)
  show ?thesis
    unfolding cached_hit [OF Some] by simp
qed




subsection \<open>Evaluation on concrete titles\<close>



lemma sample_title_nonempty: "sample_title \<noteq> []"
  by (simp add: sample_title_def ustr_def)

lemma sample_ai_answer:
  "fst (cached_clean_title (service_env True (steady_provider 2 sample_answer)) at_startup sample_title)
     = Some sample_answer"
  by (simp add: cached_clean_title_def clean_title_with_ai_def generate_content_def Let_def
      service_env_def steady_provider_def at_startup_def sample_answer_def ustr_def
      strip_def remove_quotes_def is_space_def)




lemma sample_calls:
  "ai_calls (snd (clean_title_endpoint (service_env True (steady_provider 2 sample_answer)) at_startup
       (sample_request (JStr sample_title) x) (ticking 2))) =
     [\<lparr>call_prompt = build_prompt sample_title, call_alarm = Some 3,
       call_result = Some sample_answer\<rparr>]"
proof -
  have t: "title_of (sample_request (JStr sample_title) x) = JStr sample_title"
    by (simp add: title_of_def sample_request_def)
  have on: "AI_ENABLED (service_env True (steady_provider 2 sample_answer))"
    by (simp add: service_env_def)
  have "map_of (entries at_startup) sample_title = None"
    by (simp add: at_startup_def)
  then have "ai_calls (snd (cached_clean_title (service_env True (steady_provider 2 sample_answer))
      at_startup sample_title)) =
     [\<lparr>call_prompt = build_prompt sample_title, call_alarm = Some 3,
       call_result = fst (cached_clean_title (service_env True (steady_provider 2 sample_answer))
      at_startup sample_title)\<rparr>]"
    by (simp add: cached_miss clean_title_with_ai_def Let_def service_env_def at_startup_def)
  then show ?thesis
    using sample_title_nonempty on by (simp add: endpoint_state t sample_ai_answer)
qed

subsection \<open>The claims\<close>

text \<open>
  Claim C1 as stated fails on a title that is the empty string: the handler answers it with
  the error object and status 400, not with a cleaning result.
\<close>

theorem empty_title_counterexample:
  "fst (clean_title_endpoint (service_env False (steady_provider 2 sample_answer)) at_startup
          (sample_request (JStr []) None) (ticking 1)) = Refused 400 (ustr ''No title provided'')"
  by (simp add: clean_title_endpoint_def title_of_def sample_request_def body_on_falsy)

text \<open>
  Claim C1, amended. For every request whose title is a non-empty string the handler
  returns a cleaning result whose \<open>cleaned\<close> is not null and whose method is one of ai,
  regex and none; a request whose title is the empty string is answered with the error
  "No title provided" and leaves the state as it was.
\<close>

theorem clean_title_answers:
  "(title_of req = JStr s \<and> s \<noteq> [] \<longrightarrow>
      (\<exists>r. fst (clean_title_endpoint E st req clock) = Cleaned r \<and> cleaned r \<noteq> JNull \<and>
           method_used r \<in> {AI, Regex, NoMethod})) \<and>
   (title_of req = JStr [] \<longrightarrow>
      clean_title_endpoint E st req clock = (Refused 400 (ustr ''No title provided''), st))"
proof (intro conjI impI)
  assume "title_of req = JStr s \<and> s \<noteq> []"
  then have t: "title_of req = JStr s" and s: "s \<noteq> []" by simp_all
  show "\<exists>r. fst (clean_title_endpoint E st req clock) = Cleaned r \<and> cleaned r \<noteq> JNull \<and>
           method_used r \<in> {AI, Regex, NoMethod}"
    by (simp add: clean_title_endpoint_def t body_on_string [OF s] plan_b_def result_of_def
        split: option.splits)
next
  assume "title_of req = JStr []"
  then show "clean_title_endpoint E st req clock = (Refused 400 (ustr ''No title provided''), st)"
    by (simp add: clean_title_endpoint_def body_on_falsy)
qed

theorem clean_title_answers_witness:
  "title_of (sample_request (JStr sample_title) None) = JStr sample_title \<and> sample_title \<noteq> [] \<and>
   (\<exists>r. fst (clean_title_endpoint (service_env True (steady_provider 2 sample_answer)) at_startup
              (sample_request (JStr sample_title) None) (ticking 1)) = Cleaned r \<and>
        cleaned r \<noteq> JNull \<and> method_used r \<in> {AI, Regex, NoMethod}) \<and>
   title_of (sample_request (JStr []) None) = JStr [] \<and>
   clean_title_endpoint (service_env True (steady_provider 2 sample_answer)) at_startup
     (sample_request (JStr []) None) (ticking 1) = (Refused 400 (ustr ''No title provided''), at_startup)"
proof -
  have t1: "title_of (sample_request (JStr sample_title) None) = JStr sample_title"
    and t2: "title_of (sample_request (JStr []) None) = JStr []"
    by (simp_all add: title_of_def sample_request_def)
  show ?thesis
    using clean_title_answers [of "sample_request (JStr sample_title) None" sample_title
        "service_env True (steady_provider 2 sample_answer)" at_startup "ticking 1"]
      clean_title_answers [of "sample_request (JStr []) None" sample_title
        "service_env True (steady_provider 2 sample_answer)" at_startup "ticking 1"]
      t1 t2 sample_title_nonempty
    by blast
qed

text \<open>
  Claim C2 as stated fails: here the provider raises on its first call and would answer
  the second one, yet after the failed call the cache holds an entry for the title (the
  value \<open>None\<close>), the second call with the same title returns that entry, and the
  provider has been called once.
\<close>

theorem failure_is_memoised_counterexample:
  "fst (cached_clean_title (service_env True (failing_at 0 (ustr ''Nokia 105'')))
          at_startup (ustr ''Nokia 105 PTA Approved'')) = None \<and>
   map_of (entries (snd (cached_clean_title (service_env True (failing_at 0 (ustr ''Nokia 105'')))
          at_startup (ustr ''Nokia 105 PTA Approved'')))) (ustr ''Nokia 105 PTA Approved'') = Some None \<and>
   fst (cached_clean_title (service_env True (failing_at 0 (ustr ''Nokia 105'')))
          (snd (cached_clean_title (service_env True (failing_at 0 (ustr ''Nokia 105'')))
                  at_startup (ustr ''Nokia 105 PTA Approved'')))
          (ustr ''Nokia 105 PTA Approved'')) = None \<and>
   length (ai_calls (snd (cached_clean_title (service_env True (failing_at 0 (ustr ''Nokia 105'')))
          (snd (cached_clean_title (service_env True (failing_at 0 (ustr ''Nokia 105'')))
                  at_startup (ustr ''Nokia 105 PTA Approved'')))
          (ustr ''Nokia 105 PTA Approved'')))) = 1 \<and>
   generate_content (service_env True (failing_at 0 (ustr ''Nokia 105''))) 1 (Some 3)
      (build_prompt (ustr ''Nokia 105 PTA Approved'')) = Inr (ustr ''Nokia 105'')"
  by (simp add: cached_clean_title_def clean_title_with_ai_def generate_content_def Let_def
        service_env_def failing_at_def at_startup_def)

text \<open>
  Claim C2, amended. If the AI completion fails for a title that is not cached, the cache
  stores the failure as the entry of that title: the next call with the same title is a
  hit that returns the failure and makes no call to the provider.
\<close>

theorem failure_is_memoised:
  assumes "AI_ENABLED E" and "map_of (entries st) title = None"
    and "generate_content E (length (ai_calls st)) (if has_sigalrm E then Some 3 else None)
           (build_prompt title) = Inl e"
  shows "(let (r1, st1) = cached_clean_title E st title;
              (r2, st2) = cached_clean_title E st1 title
          in r1 = None \<and> map_of (entries st1) title = Some None \<and>
             r2 = None \<and> ai_calls st2 = ai_calls st1 \<and> hits st2 = hits st1 + 1 \<and>
             misses st2 = misses st1)"
proof -
  obtain r1 st1 where first: "cached_clean_title E st title = (r1, st1)"
    by (cases "cached_clean_title E st title")
  have "r1 = fst (cached_clean_title E st title)"
    by (simp add: first)
  then have failed: "r1 = None"
    unfolding cached_miss [OF assms(2)] using ai_failure_result [OF assms(1) assms(3)] by simp
  have stored: "map_of (entries st1) title = Some r1"
    using cached_stores [of E st title] first by simp
  have second: "cached_clean_title E st1 title =
      (r1, st1\<lparr>entries := (title, r1) # filter (\<lambda>e. fst e \<noteq> title) (entries st1),
               hits := hits st1 + 1\<rparr>)"
    using stored by (rule cached_hit)
  show ?thesis
    using failed stored by (simp add: first second)
qed

theorem failure_is_memoised_witness:
  "AI_ENABLED (service_env True (failing_at 0 (ustr ''Nokia 105''))) \<and>
   map_of (entries at_startup) (ustr ''Nokia 105 PTA Approved'') = None \<and>
   generate_content (service_env True (failing_at 0 (ustr ''Nokia 105'')))
     (length (ai_calls at_startup))
     (if has_sigalrm (service_env True (failing_at 0 (ustr ''Nokia 105''))) then Some 3 else None)
     (build_prompt (ustr ''Nokia 105 PTA Approved'')) = Inl ProviderError \<and>
   (let (r1, st1) = cached_clean_title (service_env True (failing_at 0 (ustr ''Nokia 105'')))
                      at_startup (ustr ''Nokia 105 PTA Approved'');
        (r2, st2) = cached_clean_title (service_env True (failing_at 0 (ustr ''Nokia 105'')))
                      st1 (ustr ''Nokia 105 PTA Approved'')
    in r1 = None \<and> map_of (entries st1) (ustr ''Nokia 105 PTA Approved'') = Some None \<and>
       r2 = None \<and> ai_calls st2 = ai_calls st1 \<and> hits st2 = hits st1 + 1 \<and>
       misses st2 = misses st1)"
proof -
  have enabled: "AI_ENABLED (service_env True (failing_at 0 (ustr ''Nokia 105'')))"
    by (simp add: service_env_def)
  have absent: "map_of (entries at_startup) (ustr ''Nokia 105 PTA Approved'') = None"
    by (simp add: at_startup_def)
  have fails: "generate_content (service_env True (failing_at 0 (ustr ''Nokia 105'')))
     (length (ai_calls at_startup))
     (if has_sigalrm (service_env True (failing_at 0 (ustr ''Nokia 105''))) then Some 3 else None)
     (build_prompt (ustr ''Nokia 105 PTA Approved'')) = Inl ProviderError"
    by (simp add: generate_content_def service_env_def failing_at_def at_startup_def)
  show ?thesis
    using failure_is_memoised [OF enabled absent fails] enabled absent fails by blast
qed






text \<open>
  Claim C8. With the AI enabled and a title that is not in the cache yet, two calls of the
  cached cleaner with that title make exactly one call to the provider: the first call is
  the miss that makes it, the second is a hit that returns the same value; and
  \<^verbatim>\<open>/health\<close> reports these two counters.
\<close>

theorem cache_second_call_hits:
  assumes "AI_ENABLED E" and "map_of (entries st) title = None"
  shows "(let (r1, st1) = cached_clean_title E st title;
              (r2, st2) = cached_clean_title E st1 title
          in length (ai_calls st1) = length (ai_calls st) + 1 \<and> ai_calls st2 = ai_calls st1 \<and>
             misses st1 = misses st + 1 \<and> hits st1 = hits st \<and>
             misses st2 = misses st1 \<and> hits st2 = hits st1 + 1 \<and> r2 = r1 \<and>
             cache_hits (health_check E st2) = hits st2 \<and>
             cache_misses (health_check E st2) = misses st2)"
proof -
  obtain r1 st1 where first: "cached_clean_title E st title = (r1, st1)"
    by (cases "cached_clean_title E st title")
  have stored: "map_of (entries st1) title = Some r1"
    using cached_stores [of E st title] first by simp
  have second: "cached_clean_title E st1 title =
      (r1, st1\<lparr>entries := (title, r1) # filter (\<lambda>e. fst e \<noteq> title) (entries st1),
               hits := hits st1 + 1\<rparr>)"
    using stored by (rule cached_hit)
  have st1_eq: "st1 = snd (cached_clean_title E st title)"
    by (simp add: first)
  have calls: "length (ai_calls st1) = length (ai_calls st) + 1"
    unfolding st1_eq cached_miss [OF assms(2)] by (simp add: ai_enabled_effect [OF assms(1)])
  have counters: "misses st1 = misses st + 1" "hits st1 = hits st"
    unfolding st1_eq cached_miss [OF assms(2)] by (simp_all add: ai_enabled_effect [OF assms(1)])
  show ?thesis
    using calls counters by (simp add: first second health_check_def)
qed

theorem cache_second_call_hits_witness:
  "AI_ENABLED (service_env True (steady_provider 1 (ustr ''Nokia 105''))) \<and>
   map_of (entries at_startup) (ustr ''Nokia 105 PTA Approved'') = None \<and>
   (let (r1, st1) = cached_clean_title (service_env True (steady_provider 1 (ustr ''Nokia 105'')))
                      at_startup (ustr ''Nokia 105 PTA Approved'');
        (r2, st2) = cached_clean_title (service_env True (steady_provider 1 (ustr ''Nokia 105'')))
                      st1 (ustr ''Nokia 105 PTA Approved'')
    in length (ai_calls st1) = 1 \<and> ai_calls st2 = ai_calls st1 \<and>
       misses st1 = 1 \<and> hits st1 = 0 \<and> misses st2 = 1 \<and> hits st2 = 1 \<and> r2 = r1 \<and>
       cache_hits (health_check (service_env True (steady_provider 1 (ustr ''Nokia 105''))) st2) = 1 \<and>
       cache_misses (health_check (service_env True (steady_provider 1 (ustr ''Nokia 105''))) st2) = 1)"
proof -
  have enabled: "AI_ENABLED (service_env True (steady_provider 1 (ustr ''Nokia 105'')))"
    by (simp add: service_env_def)
  have absent: "map_of (entries at_startup) (ustr ''Nokia 105 PTA Approved'') = None"
    by (simp add: at_startup_def)
  have start: "length (ai_calls at_startup) = 0" "hits at_startup = 0" "misses at_startup = 0"
    by (simp_all add: at_startup_def)
  show ?thesis
    using cache_second_call_hits [OF enabled absent] enabled absent
    by (simp add: start split: prod.splits)
qed



text \<open>
  Claim C10. On a platform with \<^verbatim>\<open>SIGALRM\<close>, whatever timeout the caller sends, the
  handler leaves the same state behind: the same calls to the provider, each with its
  prompt, its alarm and what came back, and the same cache. Every call the request makes
  is guarded by an alarm of 3 seconds and carries the prompt built from the title.
\<close>

theorem ai_call_ignores_timeout:
  assumes "has_sigalrm E"
  shows "snd (clean_title_endpoint E st (req\<lparr>req_timeout := a\<rparr>) clock) =
         snd (clean_title_endpoint E st (req\<lparr>req_timeout := b\<rparr>) clock) \<and>
         list_all (\<lambda>c. call_alarm c = Some 3 \<and>
                       (\<exists>s. title_of req = JStr s \<and> call_prompt c = build_prompt s))
           (drop (length (ai_calls st))
              (ai_calls (snd (clean_title_endpoint E st (req\<lparr>req_timeout := a\<rparr>) clock))))"
proof -
  have same_title: "title_of (req\<lparr>req_timeout := x\<rparr>) = title_of req" for x
    by (simp add: title_of_def)
  have same: "snd (clean_title_endpoint E st (req\<lparr>req_timeout := a\<rparr>) clock) =
         snd (clean_title_endpoint E st (req\<lparr>req_timeout := b\<rparr>) clock)"
    by (simp add: endpoint_state same_title)
  have calls: "list_all (\<lambda>c. call_alarm c = Some 3 \<and>
                       (\<exists>s. title_of req = JStr s \<and> call_prompt c = build_prompt s))
           (drop (length (ai_calls st))
              (ai_calls (snd (clean_title_endpoint E st (req\<lparr>req_timeout := a\<rparr>) clock))))"
  proof (cases "\<exists>s. title_of req = JStr s \<and> s \<noteq> [] \<and> AI_ENABLED E")
    case False
    then have "snd (clean_title_endpoint E st (req\<lparr>req_timeout := a\<rparr>) clock) = st"
      by (cases "title_of req") (auto simp: endpoint_state same_title)
    then show ?thesis by simp
  next
    case True
    then obtain s where s: "title_of req = JStr s" "s \<noteq> []" "AI_ENABLED E" by blast
    obtain new where new: "ai_calls (snd (cached_clean_title E st s)) = ai_calls st @ new"
      "list_all (\<lambda>c. call_prompt c = build_prompt s \<and>
                       call_alarm c = (if has_sigalrm E then Some 3 else None)) new"
      using cached_calls [of E st s] by blast
    have "snd (clean_title_endpoint E st (req\<lparr>req_timeout := a\<rparr>) clock) =
            snd (cached_clean_title E st s)"
      using s by (simp add: endpoint_state same_title)
    then show ?thesis
      using new assms s(1) by (simp add: list_all_iff)
  qed
  from same calls show ?thesis by blast
qed

theorem ai_call_ignores_timeout_witness:
  "has_sigalrm (service_env True (steady_provider 2 sample_answer)) \<and>
   snd (clean_title_endpoint (service_env True (steady_provider 2 sample_answer)) at_startup
          ((sample_request (JStr sample_title) None)\<lparr>req_timeout := Some (JNum 1)\<rparr>) (ticking 2)) =
   snd (clean_title_endpoint (service_env True (steady_provider 2 sample_answer)) at_startup
          ((sample_request (JStr sample_title) None)\<lparr>req_timeout := Some (JNum 10)\<rparr>) (ticking 2)) \<and>
   map call_alarm
     (drop (length (ai_calls at_startup))
        (ai_calls (snd (clean_title_endpoint (service_env True (steady_provider 2 sample_answer))
           at_startup ((sample_request (JStr sample_title) None)\<lparr>req_timeout := Some (JNum 1)\<rparr>)
           (ticking 2))))) = [Some 3]"
proof -
  have alarm: "has_sigalrm (service_env True (steady_provider 2 sample_answer))"
    by (simp add: service_env_def)
  have req: "(sample_request (JStr sample_title) None)\<lparr>req_timeout := y\<rparr> =
      sample_request (JStr sample_title) y" for y
    by (simp add: sample_request_def)
  have none_yet: "length (ai_calls at_startup) = 0"
    by (simp add: at_startup_def)
  show ?thesis
    using ai_call_ignores_timeout [OF alarm, where st = at_startup
          and req = "sample_request (JStr sample_title) None" and a = "Some (JNum 1)"
          and b = "Some (JNum 10)" and clock = "ticking 2"] alarm
    by (simp add: req sample_calls none_yet)
qed


end
